theory Spec2Isabelle
  imports Complex_Main "HOL-Library.AList"
begin

section \<open>Values, dictionaries and exceptions\<close>

text \<open>
  The client in \<^verbatim>\<open>src/Pushover/__init__.py\<close> builds form payloads (Python dicts from
  field names to strings and integers), posts them with the \<^verbatim>\<open>requests\<close> library and
  reads the decoded JSON body. A dict is an association list in insertion order, read with
  \<^const>\<open>map_of\<close> and written with \<^const>\<open>AList.update\<close> (assignment to an existing key
  keeps its position, a new key goes to the end). A Python \<^verbatim>\<open>str\<close> is a list
  of characters, \<^verbatim>\<open>len\<close> is \<^const>\<open>length\<close>; a Python \<^verbatim>\<open>int\<close> is an \<^typ>\<open>int\<close>.
\<close>

datatype pyval = PStr string | PInt int

type_synonym dict = "(string \<times> pyval) list"

text \<open>A Python float, as \<^verbatim>\<open>json.loads\<close> can produce it: a finite value or one of the
  three non-finite ones.\<close>

datatype pyfloat = Finite real | PosInf | NegInf | NaN

text \<open>What \<^verbatim>\<open>response.json()\<close> can return. \<^verbatim>\<open>None\<close> is \<open>JNull\<close>.\<close>

datatype json =
    JNull
  | JBool bool
  | JInt int
  | JFloat pyfloat
  | JStr string
  | JArr "json list"
  | JObj "(string \<times> json) list"

text \<open>\<^verbatim>\<open>d.get(k, default)\<close> on a decoded object.\<close>

definition dict_get :: "(string \<times> json) list \<Rightarrow> string \<Rightarrow> json \<Rightarrow> json" where
  "dict_get d k dflt = (case map_of d k of None \<Rightarrow> dflt | Some v \<Rightarrow> v)"

text \<open>\<^verbatim>\<open>v == 1\<close> in Python: \<^verbatim>\<open>bool\<close> is a subclass of \<^verbatim>\<open>int\<close> with
  \<^verbatim>\<open>True == 1\<close>, a float is compared by value, every other type is unequal to 1.\<close>

fun py_eq_1 :: "json \<Rightarrow> bool" where
  "py_eq_1 (JInt i) = (i = 1)"
| "py_eq_1 (JBool b) = b"
| "py_eq_1 (JFloat (Finite r)) = (r = 1)"
| "py_eq_1 _ = False"

text \<open>
  Exceptions raised by the collaborators (\<^verbatim>\<open>requests.post\<close>, \<^verbatim>\<open>response.json\<close>):
  the client only distinguishes those derived from
  \<^verbatim>\<open>requests.exceptions.RequestException\<close> from all others. The string is \<^verbatim>\<open>str(e)\<close>.
\<close>

datatype exn = RequestException string | OtherException string

text \<open>
  The text of a \<^verbatim>\<open>PushoverError\<close>: the fixed prefix of the source's f-string is the
  constructor, the interpolated value its argument.
\<close>

datatype pushover_msg =
    Failed_to_read_attachment string
  | API_request_failed json
  | Request_failed string

text \<open>
  What a call of the client can raise. \<open>ValueError\<close>, \<open>PushoverError\<close> are the
  \<^verbatim>\<open>raise\<close> statements of the source, with their messages; \<open>KeyError\<close>,
  \<open>TypeError\<close> and \<open>AttributeError\<close> are raised by Python when the decoded body is
  subscripted or asked for \<^verbatim>\<open>.get\<close>; \<open>Propagated\<close> is an exception of a collaborator
  that no \<^verbatim>\<open>except\<close> clause catches.
\<close>

datatype error =
    ValueError string
  | PushoverError pushover_msg
  | KeyError string
  | TypeError
  | AttributeError
  | Propagated string

section \<open>The data types of the source\<close>

datatype Priority = LOWEST | LOW | NORMAL | HIGH | EMERGENCY

fun priority_value :: "Priority \<Rightarrow> int" where
  "priority_value LOWEST = -2"
| "priority_value LOW = -1"
| "priority_value NORMAL = 0"
| "priority_value HIGH = 1"
| "priority_value EMERGENCY = 2"

record GlancesData =
  g_title :: "string option"
  g_text :: "string option"
  g_subtext :: "string option"
  g_count :: "int option"
  g_percent :: "int option"

text \<open>\<^verbatim>\<open>GlancesData()\<close>: every field at its default \<^verbatim>\<open>None\<close>.\<close>

definition GlancesData_default :: GlancesData where
  "GlancesData_default =
     \<lparr>g_title = None, g_text = None, g_subtext = None, g_count = None, g_percent = None\<rparr>"

record PushoverResponse =
  status :: json
  request_id :: json
  receipt :: json
  errors :: json

subsection \<open>GlancesData.validate\<close>

text \<open>\<^verbatim>\<open>if s and len(s) > 100\<close> for an optional string: \<^verbatim>\<open>None\<close> and the empty
  string are falsy.\<close>

fun too_long :: "string option \<Rightarrow> bool" where
  "too_long None = False"
| "too_long (Some s) = (s \<noteq> [] \<and> length s > 100)"

definition validate :: "GlancesData \<Rightarrow> error + unit" where
  "validate g =
     (if too_long (g_title g) then Inl (ValueError ''title must be 100 characters or less'')
      else if too_long (g_text g) then Inl (ValueError ''text must be 100 characters or less'')
      else if too_long (g_subtext g) then
        Inl (ValueError ''subtext must be 100 characters or less'')
      else (case g_percent g of
              None \<Rightarrow> Inr ()
            | Some p \<Rightarrow>
                if \<not> (0 \<le> p \<and> p \<le> 100) then
                  Inl (ValueError ''percent must be between 0 and 100'')
                else Inr ()))"

subsection \<open>GlancesData.to\_dict\<close>

text \<open>\<^verbatim>\<open>if self.f is not None: data["f"] = self.f\<close>.\<close>

fun put_str :: "string \<Rightarrow> string option \<Rightarrow> dict \<Rightarrow> dict" where
  "put_str k None d = d"
| "put_str k (Some s) d = AList.update k (PStr s) d"

fun put_int :: "string \<Rightarrow> int option \<Rightarrow> dict \<Rightarrow> dict" where
  "put_int k None d = d"
| "put_int k (Some n) d = AList.update k (PInt n) d"

definition to_dict :: "GlancesData \<Rightarrow> dict" where
  "to_dict g =
     (let data = [];
          data = put_str ''title'' (g_title g) data;
          data = put_str ''text'' (g_text g) data;
          data = put_str ''subtext'' (g_subtext g) data;
          data = put_int ''count'' (g_count g) data;
          data = put_int ''percent'' (g_percent g) data
      in data)"

section \<open>The transport\<close>

text \<open>
  A request as handed to \<^verbatim>\<open>requests.post\<close>: the URL, the form fields and, for an
  attachment, the one multipart part (file name, the opened file, content type). A response
  has the HTTP status code and the outcome of \<^verbatim>\<open>response.json()\<close>: the decoded body,
  or the exception the decoder raises.
\<close>

type_synonym handle = nat

record request =
  req_url :: string
  req_data :: dict
  req_files :: "(string \<times> (string \<times> handle \<times> string)) list option"

record response =
  status_code :: int
  json_result :: "exn + json"

text \<open>
  The world outside the client: \<open>open_rb p\<close> is \<^verbatim>\<open>open(p, "rb")\<close>, giving the file or
  the text of the exception it raises; \<open>post r\<close> is \<^verbatim>\<open>requests.post\<close>, giving the response
  or the exception it raises. Every operation returns, beside its result, the list of
  requests it handed to \<open>post\<close>, in order.
\<close>

record env =
  open_rb :: "string \<Rightarrow> string + handle"
  post :: "request \<Rightarrow> exn + response"

definition BASE_URL :: string where
  "BASE_URL = ''https://api.pushover.net/1''"

section \<open>Pushover.send\_message\<close>

text \<open>The keyword arguments of \<^verbatim>\<open>send_message\<close>; \<open>send_args u m\<close> is the call that
  passes only the two positional arguments.\<close>

record send_args =
  user_key :: string
  message :: string
  title :: "string option"
  device :: "string option"
  priority :: Priority
  sound :: "string option"
  url :: "string option"
  url_title :: "string option"
  timestamp :: "int option"
  html :: bool
  monospace :: bool
  ttl :: "int option"
  retry :: "int option"
  expire :: "int option"
  callback_url :: "string option"
  attachment :: "string option"

definition send_args :: "string \<Rightarrow> string \<Rightarrow> send_args" where
  "send_args u m =
     \<lparr>user_key = u, message = m, title = None, device = None, priority = NORMAL,
      sound = None, url = None, url_title = None, timestamp = None, html = False,
      monospace = False, ttl = None, retry = None, expire = None, callback_url = None,
      attachment = None\<rparr>"

text \<open>Python truthiness of an optional string and of an optional integer.\<close>

fun truthy_str :: "string option \<Rightarrow> bool" where
  "truthy_str None = False"
| "truthy_str (Some s) = (s \<noteq> [])"

fun truthy_int :: "int option \<Rightarrow> bool" where
  "truthy_int None = False"
| "truthy_int (Some n) = (n \<noteq> 0)"

text \<open>\<^verbatim>\<open>if x: payload[k] = x\<close>.\<close>

definition add_str :: "string \<Rightarrow> string option \<Rightarrow> dict \<Rightarrow> dict" where
  "add_str k x payload = (if truthy_str x then put_str k x payload else payload)"

definition add_int :: "string \<Rightarrow> int option \<Rightarrow> dict \<Rightarrow> dict" where
  "add_int k x payload = (if truthy_int x then put_int k x payload else payload)"

text \<open>\<^verbatim>\<open>if flag: payload[k] = 1\<close>.\<close>

definition add_flag :: "string \<Rightarrow> bool \<Rightarrow> dict \<Rightarrow> dict" where
  "add_flag k flag payload = (if flag then AList.update k (PInt 1) payload else payload)"

text \<open>Lines 120--136: the required fields, then the optional parameters.\<close>

definition build_payload :: "string \<Rightarrow> send_args \<Rightarrow> dict" where
  "build_payload app_token a =
     (let payload = [(''token'', PStr app_token),
                     (''user'', PStr (user_key a)),
                     (''message'', PStr (message a)),
                     (''priority'', PInt (priority_value (priority a)))];
          payload = add_str ''title'' (title a) payload;
          payload = add_str ''device'' (device a) payload;
          payload = add_str ''sound'' (sound a) payload;
          payload = add_str ''url'' (url a) payload;
          payload = add_str ''url_title'' (url_title a) payload;
          payload = add_int ''timestamp'' (timestamp a) payload;
          payload = add_flag ''html'' (html a) payload;
          payload = add_flag ''monospace'' (monospace a) payload;
          payload = add_int ''ttl'' (ttl a) payload
      in payload)"

text \<open>Lines 139--150: the emergency priority parameters.\<close>

definition emergency_params :: "send_args \<Rightarrow> dict \<Rightarrow> error + dict" where
  "emergency_params a payload =
     (if priority a = EMERGENCY then
        (case (retry a, expire a) of
           (Some r, Some e) \<Rightarrow>
             if r = 0 \<or> e = 0 then
               Inl (ValueError ''Emergency priority requires retry and expire parameters'')
             else if r < 30 then Inl (ValueError ''retry must be at least 30 seconds'')
             else if e > 10800 then
               Inl (ValueError ''expire must be at most 10800 seconds (3 hours)'')
             else Inr (add_str ''callback'' (callback_url a)
                        (AList.update ''expire'' (PInt e)
                          (AList.update ''retry'' (PInt r) payload)))
         | _ \<Rightarrow> Inl (ValueError ''Emergency priority requires retry and expire parameters''))
      else Inr payload)"

text \<open>Lines 152--159: the attachment is opened only for a truthy path; any exception of
  \<^verbatim>\<open>open\<close> becomes a \<^verbatim>\<open>PushoverError\<close> carrying its text.\<close>

definition open_attachment ::
  "env \<Rightarrow> string option \<Rightarrow> error + (string \<times> (string \<times> handle \<times> string)) list option" where
  "open_attachment w att =
     (case att of
        None \<Rightarrow> Inr None
      | Some p \<Rightarrow>
          if p = [] then Inr None
          else (case open_rb w p of
                  Inl m \<Rightarrow> Inl (PushoverError (Failed_to_read_attachment m))
                | Inr h \<Rightarrow> Inr (Some [(''attachment'', (''image.jpg'', h, ''image/jpeg''))])))"

text \<open>\<^verbatim>\<open>except requests.exceptions.RequestException as e\<close>: a request exception is
  wrapped, any other exception goes on to the caller.\<close>

fun on_exception :: "exn \<Rightarrow> error" where
  "on_exception (RequestException m) = PushoverError (Request_failed m)"
| "on_exception (OtherException m) = Propagated m"

text \<open>\<^verbatim>\<open>data.get('errors', ['Unknown error'])\<close>: only a dict has \<^verbatim>\<open>.get\<close>.\<close>

fun get_errors :: "json \<Rightarrow> error + json" where
  "get_errors (JObj d) = Inr (dict_get d ''errors'' (JArr [JStr ''Unknown error'']))"
| "get_errors _ = Inl AttributeError"

text \<open>\<^verbatim>\<open>data[k]\<close>: a missing key of a dict is a \<^verbatim>\<open>KeyError\<close>, a string key on
  anything else is a \<^verbatim>\<open>TypeError\<close>.\<close>

fun subscript :: "json \<Rightarrow> string \<Rightarrow> error + json" where
  "subscript (JObj d) k = (case map_of d k of None \<Rightarrow> Inl (KeyError k) | Some v \<Rightarrow> Inr v)"
| "subscript _ k = Inl TypeError"

text \<open>\<^verbatim>\<open>data.get(k)\<close>.\<close>

fun get_opt :: "json \<Rightarrow> string \<Rightarrow> error + json" where
  "get_opt (JObj d) k = Inr (dict_get d k JNull)"
| "get_opt _ k = Inl AttributeError"

text \<open>Lines 170--177: the decoding of the response of \<^verbatim>\<open>send_message\<close>. The keyword
  arguments of \<^verbatim>\<open>PushoverResponse\<close> are evaluated in the order written.\<close>

definition decode_send :: "int \<Rightarrow> json \<Rightarrow> error + PushoverResponse" where
  "decode_send code data =
     (if code \<noteq> 200 then
        (case get_errors data of
           Inl e \<Rightarrow> Inl e
         | Inr errs \<Rightarrow> Inl (PushoverError (API_request_failed errs)))
      else
        (case subscript data ''status'' of
           Inl e \<Rightarrow> Inl e
         | Inr st \<Rightarrow>
             (case subscript data ''request'' of
                Inl e \<Rightarrow> Inl e
              | Inr rq \<Rightarrow>
                  (case get_opt data ''receipt'' of
                     Inl e \<Rightarrow> Inl e
                   | Inr rc \<Rightarrow>
                       Inr \<lparr>status = st, request_id = rq, receipt = rc, errors = JNull\<rparr>))))"

definition send_message ::
  "env \<Rightarrow> string \<Rightarrow> send_args \<Rightarrow> (error + PushoverResponse) \<times> request list" where
  "send_message w app_token a =
     (case emergency_params a (build_payload app_token a) of
        Inl e \<Rightarrow> (Inl e, [])
      | Inr payload \<Rightarrow>
          (case open_attachment w (attachment a) of
             Inl e \<Rightarrow> (Inl e, [])
           | Inr files \<Rightarrow>
               (let req = \<lparr>req_url = BASE_URL @ ''/messages.json'',
                           req_data = payload, req_files = files\<rparr>
                in (case post w req of
                      Inl ex \<Rightarrow> (Inl (on_exception ex), [req])
                    | Inr resp \<Rightarrow>
                        (case json_result resp of
                           Inl ex \<Rightarrow> (Inl (on_exception ex), [req])
                         | Inr data \<Rightarrow> (decode_send (status_code resp) data, [req]))))))"

section \<open>Pushover.validate\_user\<close>

text \<open>The bare \<^verbatim>\<open>except:\<close> turns every exception of the \<^verbatim>\<open>try\<close> block into
  \<^verbatim>\<open>False\<close>, also the \<^verbatim>\<open>AttributeError\<close> of \<^verbatim>\<open>.get\<close> on a body that is not a
  dict. The status code of the response is not read.\<close>

definition validate_user :: "env \<Rightarrow> string \<Rightarrow> string \<Rightarrow> string option \<Rightarrow> bool \<times> request list" where
  "validate_user w app_token ukey dev =
     (let payload = [(''token'', PStr app_token), (''user'', PStr ukey)];
          payload = add_str ''device'' dev payload;
          req = \<lparr>req_url = BASE_URL @ ''/users/validate.json'',
                 req_data = payload, req_files = None\<rparr>
      in (case post w req of
            Inl ex \<Rightarrow> (False, [req])
          | Inr resp \<Rightarrow>
              (case json_result resp of
                 Inl ex \<Rightarrow> (False, [req])
               | Inr data \<Rightarrow>
                   (case get_opt data ''status'' of
                      Inl e \<Rightarrow> (False, [req])
                    | Inr v \<Rightarrow> (py_eq_1 v, [req])))))"

section \<open>Pushover.cancel\_emergency\<close>

definition cancel_emergency :: "env \<Rightarrow> string \<Rightarrow> string \<Rightarrow> bool \<times> request list" where
  "cancel_emergency w app_token rcpt =
     (let req = \<lparr>req_url = BASE_URL @ ''/receipts/'' @ rcpt @ ''/cancel.json'',
                 req_data = [(''token'', PStr app_token)], req_files = None\<rparr>
      in (case post w req of
            Inl ex \<Rightarrow> (False, [req])
          | Inr resp \<Rightarrow> (status_code resp = 200, [req])))"

section \<open>Pushover.update\_glance\<close>

text \<open>\<^verbatim>\<open>{"token": ..., "user": ..., **glances_data.to_dict()}\<close>: the entries of the
  second dict are assigned one after the other.\<close>

definition dict_merge :: "dict \<Rightarrow> dict \<Rightarrow> dict" where
  "dict_merge d e = foldl (\<lambda>acc (k, v). AList.update k v acc) d e"

definition decode_glance :: "int \<Rightarrow> json \<Rightarrow> error + PushoverResponse" where
  "decode_glance code data =
     (if code \<noteq> 200 then
        (case get_errors data of
           Inl e \<Rightarrow> Inl e
         | Inr errs \<Rightarrow> Inl (PushoverError (API_request_failed errs)))
      else
        (case subscript data ''status'' of
           Inl e \<Rightarrow> Inl e
         | Inr st \<Rightarrow>
             (case subscript data ''request'' of
                Inl e \<Rightarrow> Inl e
              | Inr rq \<Rightarrow>
                  Inr \<lparr>status = st, request_id = rq, receipt = JNull, errors = JNull\<rparr>)))"

definition update_glance ::
  "env \<Rightarrow> string \<Rightarrow> string \<Rightarrow> GlancesData \<Rightarrow> string option
     \<Rightarrow> (error + PushoverResponse) \<times> request list" where
  "update_glance w app_token ukey glances_data dev =
     (case validate glances_data of
        Inl e \<Rightarrow> (Inl e, [])
      | Inr _ \<Rightarrow>
          (let payload = dict_merge [(''token'', PStr app_token), (''user'', PStr ukey)]
                           (to_dict glances_data);
               payload = add_str ''device'' dev payload;
               req = \<lparr>req_url = BASE_URL @ ''/glances.json'',
                      req_data = payload, req_files = None\<rparr>
           in (case post w req of
                 Inl ex \<Rightarrow> (Inl (on_exception ex), [req])
               | Inr resp \<Rightarrow>
                   (case json_result resp of
                      Inl ex \<Rightarrow> (Inl (on_exception ex), [req])
                    | Inr data \<Rightarrow> (decode_glance (status_code resp) data, [req])))))"

section \<open>Stub environments\<close>

text \<open>The environment in which every \<^verbatim>\<open>open\<close> has the outcome \<open>o_res\<close> and every
  \<^verbatim>\<open>requests.post\<close> the outcome \<open>p_res\<close>; the concrete inputs below are run in it.\<close>

definition world :: "(string + handle) \<Rightarrow> (exn + response) \<Rightarrow> env" where
  "world o_res p_res = \<lparr>open_rb = (\<lambda>_. o_res), post = (\<lambda>_. p_res)\<rparr>"

section \<open>Facts about the dictionaries\<close>

lemma world_sel [simp]: "open_rb (world a b) p = a" "post (world a b) r = b"
  by (simp_all add: world_def)

lemma map_of_put_str:
  "map_of (put_str k x d) k' = (if k' = k \<and> x \<noteq> None then map_option PStr x else map_of d k')"
  by (cases x) (simp_all add: update_conv')

lemma map_of_put_int:
  "map_of (put_int k x d) k' = (if k' = k \<and> x \<noteq> None then map_option PInt x else map_of d k')"
  by (cases x) (simp_all add: update_conv')

lemma keys_put_str:
  "fst ` set (put_str k x d) = (if x = None then {} else {k}) \<union> fst ` set d"
  by (cases x) (simp_all add: dom_update)

lemma keys_put_int:
  "fst ` set (put_int k x d) = (if x = None then {} else {k}) \<union> fst ` set d"
  by (cases x) (simp_all add: dom_update)

lemma to_dict_keys:
  "fst ` set (to_dict g) =
     (if g_title g = None then {} else {''title''}) \<union>
     (if g_text g = None then {} else {''text''}) \<union>
     (if g_subtext g = None then {} else {''subtext''}) \<union>
     (if g_count g = None then {} else {''count''}) \<union>
     (if g_percent g = None then {} else {''percent''})"
  unfolding to_dict_def Let_def keys_put_str keys_put_int by auto

lemma to_dict_lookup:
  "map_of (to_dict g) ''title'' = map_option PStr (g_title g)"
  "map_of (to_dict g) ''text'' = map_option PStr (g_text g)"
  "map_of (to_dict g) ''subtext'' = map_option PStr (g_subtext g)"
  "map_of (to_dict g) ''count'' = map_option PInt (g_count g)"
  "map_of (to_dict g) ''percent'' = map_option PInt (g_percent g)"
  unfolding to_dict_def Let_def by (simp_all add: map_of_put_str map_of_put_int)

lemma distinct_put_str: "distinct (map fst d) \<Longrightarrow> distinct (map fst (put_str k x d))"
  by (cases x) (simp_all add: distinct_update)

lemma distinct_put_int: "distinct (map fst d) \<Longrightarrow> distinct (map fst (put_int k x d))"
  by (cases x) (simp_all add: distinct_update)

lemma to_dict_distinct: "distinct (map fst (to_dict g))"
  unfolding to_dict_def Let_def by (intro distinct_put_str distinct_put_int) simp

section \<open>GlancesData\<close>

text \<open>
  C4. The keys of \<open>to_dict g\<close> are exactly the names of the fields of \<open>g\<close> that are not
  \<^verbatim>\<open>None\<close>, each key occurs once and carries the value of its field, and
  \<^verbatim>\<open>GlancesData(count=5)\<close> serializes to exactly \<^verbatim>\<open>{"count": 5}\<close>.
\<close>

theorem to_dict_exactly_set_fields:
  "fst ` set (to_dict g) =
     (if g_title g = None then {} else {''title''}) \<union>
     (if g_text g = None then {} else {''text''}) \<union>
     (if g_subtext g = None then {} else {''subtext''}) \<union>
     (if g_count g = None then {} else {''count''}) \<union>
     (if g_percent g = None then {} else {''percent''})
   \<and> distinct (map fst (to_dict g))
   \<and> map_of (to_dict g) ''title'' = map_option PStr (g_title g)
   \<and> map_of (to_dict g) ''text'' = map_option PStr (g_text g)
   \<and> map_of (to_dict g) ''subtext'' = map_option PStr (g_subtext g)
   \<and> map_of (to_dict g) ''count'' = map_option PInt (g_count g)
   \<and> map_of (to_dict g) ''percent'' = map_option PInt (g_percent g)
   \<and> to_dict (GlancesData_default\<lparr>g_count := Some 5\<rparr>) = [(''count'', PInt 5)]"
proof -
  have "to_dict (GlancesData_default\<lparr>g_count := Some 5\<rparr>) = [(''count'', PInt 5)]"
    by (simp add: to_dict_def GlancesData_default_def)
  then show ?thesis
    using to_dict_keys [of g] to_dict_distinct [of g] to_dict_lookup [of g] by simp
qed

theorem to_dict_exactly_set_fields_witness:
  "fst ` set (to_dict (GlancesData_default\<lparr>g_text := Some ''42 open'', g_percent := Some 7\<rparr>))
     = {''text'', ''percent''}
   \<and> to_dict (GlancesData_default\<lparr>g_text := Some ''42 open'', g_percent := Some 7\<rparr>)
     = [(''text'', PStr ''42 open''), (''percent'', PInt 7)]"
proof -
  have "to_dict (GlancesData_default\<lparr>g_text := Some ''42 open'', g_percent := Some 7\<rparr>)
     = [(''text'', PStr ''42 open''), (''percent'', PInt 7)]"
    by (simp add: to_dict_def GlancesData_default_def)
  then show ?thesis
    using to_dict_exactly_set_fields
            [of "GlancesData_default\<lparr>g_text := Some ''42 open'', g_percent := Some 7\<rparr>"]
    by (simp add: GlancesData_default_def)
qed

text \<open>
  C10. In \<open>to_dict\<close> zero is a set value: \<^verbatim>\<open>GlancesData(count=0)\<close> serializes to exactly
  \<^verbatim>\<open>{"count": 0}\<close> and \<^verbatim>\<open>GlancesData(percent=0)\<close> to exactly \<^verbatim>\<open>{"percent": 0}\<close>; a
  field is left out only when it is \<^verbatim>\<open>None\<close> (an empty title is kept). The payload of
  \<open>send_message\<close>, in contrast, drops a timestamp or ttl of zero and an empty title.
\<close>

theorem to_dict_keeps_zero:
  "to_dict (GlancesData_default\<lparr>g_count := Some 0\<rparr>) = [(''count'', PInt 0)]
   \<and> to_dict (GlancesData_default\<lparr>g_percent := Some 0\<rparr>) = [(''percent'', PInt 0)]
   \<and> to_dict (GlancesData_default\<lparr>g_title := Some ''''\<rparr>) = [(''title'', PStr '''')]
   \<and> (''title'' \<in> fst ` set (to_dict g)) = (g_title g \<noteq> None)
   \<and> (''text'' \<in> fst ` set (to_dict g)) = (g_text g \<noteq> None)
   \<and> (''subtext'' \<in> fst ` set (to_dict g)) = (g_subtext g \<noteq> None)
   \<and> (''count'' \<in> fst ` set (to_dict g)) = (g_count g \<noteq> None)
   \<and> (''percent'' \<in> fst ` set (to_dict g)) = (g_percent g \<noteq> None)
   \<and> build_payload tok ((send_args u m)\<lparr>title := Some '''', timestamp := Some 0, ttl := Some 0\<rparr>)
       = [(''token'', PStr tok), (''user'', PStr u), (''message'', PStr m), (''priority'', PInt 0)]"
proof -
  have "to_dict (GlancesData_default\<lparr>g_count := Some 0\<rparr>) = [(''count'', PInt 0)]"
    "to_dict (GlancesData_default\<lparr>g_percent := Some 0\<rparr>) = [(''percent'', PInt 0)]"
    "to_dict (GlancesData_default\<lparr>g_title := Some ''''\<rparr>) = [(''title'', PStr '''')]"
    by (simp_all add: to_dict_def GlancesData_default_def)
  moreover have
    "build_payload tok ((send_args u m)\<lparr>title := Some '''', timestamp := Some 0, ttl := Some 0\<rparr>)
       = [(''token'', PStr tok), (''user'', PStr u), (''message'', PStr m), (''priority'', PInt 0)]"
    by (simp add: build_payload_def send_args_def add_str_def add_int_def add_flag_def)
  ultimately show ?thesis
    by (simp add: to_dict_keys)
qed

theorem to_dict_keeps_zero_witness:
  "(''count'' \<in> fst ` set (to_dict (GlancesData_default\<lparr>g_count := Some 0\<rparr>)))
   \<and> \<not> (''percent'' \<in> fst ` set (to_dict (GlancesData_default\<lparr>g_count := Some 0\<rparr>)))
   \<and> build_payload ''T'' ((send_args ''u'' ''hi'')\<lparr>title := Some '''', timestamp := Some 0, ttl := Some 0\<rparr>)
       = [(''token'', PStr ''T''), (''user'', PStr ''u''), (''message'', PStr ''hi''), (''priority'', PInt 0)]"
  using to_dict_keeps_zero [of "GlancesData_default\<lparr>g_count := Some 0\<rparr>" "''T''" "''u''" "''hi''"]
  by (simp add: GlancesData_default_def)

section \<open>Facts about send\_message\<close>

lemma on_exception_not_ValueError: "on_exception ex \<noteq> ValueError m"
  by (cases ex) simp_all

lemma decode_send_not_ValueError: "decode_send c d \<noteq> Inl (ValueError m)"
  by (cases d) (auto simp: decode_send_def split: option.splits)

lemma open_attachment_not_ValueError: "open_attachment w att \<noteq> Inl (ValueError m)"
  by (auto simp: open_attachment_def split: option.splits sum.splits)

lemma send_message_invalid:
  "emergency_params a (build_payload tok a) = Inl e \<Longrightarrow> send_message w tok a = (Inl e, [])"
  by (simp add: send_message_def)

lemma send_message_ValueError:
  "fst (send_message w tok a) = Inl (ValueError m) \<Longrightarrow>
   emergency_params a (build_payload tok a) = Inl (ValueError m)"
  by (auto simp: send_message_def Let_def on_exception_not_ValueError decode_send_not_ValueError
        open_attachment_not_ValueError split: sum.splits)

lemma too_long_iff: "too_long x = (\<exists>s. x = Some s \<and> length s > 100)"
  by (cases x) auto

lemma validate_ok_iff:
  "(validate g = Inr ()) =
     (\<not> too_long (g_title g) \<and> \<not> too_long (g_text g) \<and> \<not> too_long (g_subtext g)
      \<and> (\<forall>p. g_percent g = Some p \<longrightarrow> 0 \<le> p \<and> p \<le> 100))"
  by (auto simp: validate_def split: option.splits)

lemma validate_error: "validate g = Inl e \<Longrightarrow> \<exists>m. e = ValueError m"
  by (auto simp: validate_def split: option.splits if_splits)

section \<open>GlancesData validation\<close>

text \<open>
  C3. \<open>validate\<close> accepts a \<open>GlancesData\<close> exactly when title, text and subtext have at most
  100 characters each and percent, when set, lies in 0..100; every rejection is a
  \<^verbatim>\<open>ValueError\<close>. \<open>update_glance\<close> validates first: when validation fails it raises that
  error and has sent no request, and when validation succeeds it sends one request.
\<close>

theorem glances_validation_bounds:
  "(validate g = Inr ()) =
     ((\<forall>s. g_title g = Some s \<longrightarrow> length s \<le> 100)
      \<and> (\<forall>s. g_text g = Some s \<longrightarrow> length s \<le> 100)
      \<and> (\<forall>s. g_subtext g = Some s \<longrightarrow> length s \<le> 100)
      \<and> (\<forall>p. g_percent g = Some p \<longrightarrow> 0 \<le> p \<and> p \<le> 100))
   \<and> (\<forall>e. validate g = Inl e \<longrightarrow>
          (\<exists>m. e = ValueError m) \<and> update_glance w tok u g dev = (Inl e, []))
   \<and> (validate g = Inr () \<longrightarrow> length (snd (update_glance w tok u g dev)) = 1)"
proof (intro conjI allI impI)
  show "(validate g = Inr ()) =
     ((\<forall>s. g_title g = Some s \<longrightarrow> length s \<le> 100)
      \<and> (\<forall>s. g_text g = Some s \<longrightarrow> length s \<le> 100)
      \<and> (\<forall>s. g_subtext g = Some s \<longrightarrow> length s \<le> 100)
      \<and> (\<forall>p. g_percent g = Some p \<longrightarrow> 0 \<le> p \<and> p \<le> 100))"
    unfolding validate_ok_iff too_long_iff by (simp add: not_less)
next
  fix e assume "validate g = Inl e"
  then show "\<exists>m. e = ValueError m" by (rule validate_error)
next
  fix e assume "validate g = Inl e"
  then show "update_glance w tok u g dev = (Inl e, [])"
    by (simp add: update_glance_def)
next
  assume "validate g = Inr ()"
  then show "length (snd (update_glance w tok u g dev)) = 1"
    by (simp add: update_glance_def Let_def split: sum.splits)
qed

theorem glances_validation_bounds_witness:
  "validate (GlancesData_default\<lparr>g_title := Some (replicate 101 CHR ''x'')\<rparr>)
     = Inl (ValueError ''title must be 100 characters or less'')
   \<and> update_glance (world (Inr 3) (Inl (RequestException ''unreachable''))) ''T'' ''u''
       (GlancesData_default\<lparr>g_title := Some (replicate 101 CHR ''x'')\<rparr>) None
     = (Inl (ValueError ''title must be 100 characters or less''), [])
   \<and> validate (GlancesData_default\<lparr>g_title := Some (replicate 100 CHR ''x'')\<rparr>) = Inr ()
   \<and> validate (GlancesData_default\<lparr>g_percent := Some (- 1)\<rparr>) \<noteq> Inr ()
   \<and> validate (GlancesData_default\<lparr>g_percent := Some 101\<rparr>) \<noteq> Inr ()
   \<and> validate (GlancesData_default\<lparr>g_percent := Some 0\<rparr>) = Inr ()
   \<and> validate (GlancesData_default\<lparr>g_percent := Some 100\<rparr>) = Inr ()"
proof -
  let ?long = "GlancesData_default\<lparr>g_title := Some (replicate 101 CHR ''x'')\<rparr>"
  have bad: "validate ?long = Inl (ValueError ''title must be 100 characters or less'')"
    by (simp add: validate_def GlancesData_default_def)
  show ?thesis
    using bad
      glances_validation_bounds [of ?long "world (Inr 3) (Inl (RequestException ''unreachable''))"
        "''T''" "''u''" None]
      glances_validation_bounds [of "GlancesData_default\<lparr>g_title := Some (replicate 100 CHR ''x'')\<rparr>"]
      glances_validation_bounds [of "GlancesData_default\<lparr>g_percent := Some (- 1)\<rparr>"]
      glances_validation_bounds [of "GlancesData_default\<lparr>g_percent := Some 101\<rparr>"]
      glances_validation_bounds [of "GlancesData_default\<lparr>g_percent := Some 0\<rparr>"]
      glances_validation_bounds [of "GlancesData_default\<lparr>g_percent := Some 100\<rparr>"]
    by (simp add: GlancesData_default_def)
qed

section \<open>Emergency validation\<close>

text \<open>
  C1 (as the code has it). For a send with priority EMERGENCY: when retry or expire is
  missing or zero the call raises \<^verbatim>\<open>ValueError\<close> "Emergency priority requires retry and
  expire parameters"; otherwise, when retry is below 30 it raises the \<^verbatim>\<open>ValueError\<close>
  naming the retry bound; otherwise, when expire is above 10800 it raises the
  \<^verbatim>\<open>ValueError\<close> naming the expire bound. In all three cases no request has been sent.
  Otherwise (in particular at retry 30 and expire 10800) the call raises no
  \<^verbatim>\<open>ValueError\<close>.
\<close>

theorem emergency_validation:
  "priority a = EMERGENCY \<longrightarrow>
     ((retry a = None \<or> retry a = Some 0 \<or> expire a = None \<or> expire a = Some 0 \<longrightarrow>
         send_message w tok a =
           (Inl (ValueError ''Emergency priority requires retry and expire parameters''), []))
      \<and> (\<forall>r e. retry a = Some r \<and> expire a = Some e \<and> r \<noteq> 0 \<and> e \<noteq> 0 \<and> r < 30 \<longrightarrow>
            send_message w tok a = (Inl (ValueError ''retry must be at least 30 seconds''), []))
      \<and> (\<forall>r e. retry a = Some r \<and> expire a = Some e \<and> 30 \<le> r \<and> 10800 < e \<longrightarrow>
            send_message w tok a =
              (Inl (ValueError ''expire must be at most 10800 seconds (3 hours)''), []))
      \<and> (\<forall>r e. retry a = Some r \<and> expire a = Some e \<and> 30 \<le> r \<and> e \<noteq> 0 \<and> e \<le> 10800 \<longrightarrow>
            (\<forall>m. fst (send_message w tok a) \<noteq> Inl (ValueError m))))"
proof (intro impI conjI allI)
  assume "priority a = EMERGENCY"
    and "retry a = None \<or> retry a = Some 0 \<or> expire a = None \<or> expire a = Some 0"
  then have "emergency_params a (build_payload tok a) =
      Inl (ValueError ''Emergency priority requires retry and expire parameters'')"
    by (auto simp: emergency_params_def split: option.splits)
  then show "send_message w tok a =
      (Inl (ValueError ''Emergency priority requires retry and expire parameters''), [])"
    by (rule send_message_invalid)
next
  fix r e
  assume "priority a = EMERGENCY"
    and "retry a = Some r \<and> expire a = Some e \<and> r \<noteq> 0 \<and> e \<noteq> 0 \<and> r < 30"
  then have "emergency_params a (build_payload tok a) =
      Inl (ValueError ''retry must be at least 30 seconds'')"
    by (simp add: emergency_params_def)
  then show "send_message w tok a = (Inl (ValueError ''retry must be at least 30 seconds''), [])"
    by (rule send_message_invalid)
next
  fix r e
  assume "priority a = EMERGENCY"
    and "retry a = Some r \<and> expire a = Some e \<and> 30 \<le> r \<and> 10800 < e"
  then have "emergency_params a (build_payload tok a) =
      Inl (ValueError ''expire must be at most 10800 seconds (3 hours)'')"
    by (simp add: emergency_params_def)
  then show "send_message w tok a =
      (Inl (ValueError ''expire must be at most 10800 seconds (3 hours)''), [])"
    by (rule send_message_invalid)
next
  fix r e m
  assume "priority a = EMERGENCY"
    and "retry a = Some r \<and> expire a = Some e \<and> 30 \<le> r \<and> e \<noteq> 0 \<and> e \<le> 10800"
  then have "\<exists>p. emergency_params a (build_payload tok a) = Inr p"
    by (simp add: emergency_params_def)
  then show "fst (send_message w tok a) \<noteq> Inl (ValueError m)"
    using send_message_ValueError [of w tok a m] by auto
qed

theorem emergency_validation_witness:
  "send_message (world (Inr 3) (Inl (RequestException ''unreachable''))) ''T''
     ((send_args ''u'' ''fire'')\<lparr>priority := EMERGENCY, expire := Some 3600\<rparr>)
     = (Inl (ValueError ''Emergency priority requires retry and expire parameters''), [])
   \<and> send_message (world (Inr 3) (Inl (RequestException ''unreachable''))) ''T''
     ((send_args ''u'' ''fire'')\<lparr>priority := EMERGENCY, retry := Some 29, expire := Some 10801\<rparr>)
     = (Inl (ValueError ''retry must be at least 30 seconds''), [])
   \<and> send_message (world (Inr 3) (Inl (RequestException ''unreachable''))) ''T''
     ((send_args ''u'' ''fire'')\<lparr>priority := EMERGENCY, retry := Some 30, expire := Some 10801\<rparr>)
     = (Inl (ValueError ''expire must be at most 10800 seconds (3 hours)''), [])
   \<and> fst (send_message (world (Inr 3) (Inl (RequestException ''unreachable''))) ''T''
     ((send_args ''u'' ''fire'')\<lparr>priority := EMERGENCY, retry := Some 30, expire := Some 10800\<rparr>))
     \<noteq> Inl (ValueError ''retry must be at least 30 seconds'')"
  using
    emergency_validation [of "(send_args ''u'' ''fire'')\<lparr>priority := EMERGENCY, expire := Some 3600\<rparr>"
      "world (Inr 3) (Inl (RequestException ''unreachable''))" "''T''"]
    emergency_validation [of "(send_args ''u'' ''fire'')\<lparr>priority := EMERGENCY, retry := Some 29, expire := Some 10801\<rparr>"
      "world (Inr 3) (Inl (RequestException ''unreachable''))" "''T''"]
    emergency_validation [of "(send_args ''u'' ''fire'')\<lparr>priority := EMERGENCY, retry := Some 30, expire := Some 10801\<rparr>"
      "world (Inr 3) (Inl (RequestException ''unreachable''))" "''T''"]
    emergency_validation [of "(send_args ''u'' ''fire'')\<lparr>priority := EMERGENCY, retry := Some 30, expire := Some 10800\<rparr>"
      "world (Inr 3) (Inl (RequestException ''unreachable''))" "''T''"]
  by (simp add: send_args_def)

text \<open>
  The claim C1 as written sends every supplied retry below 30 to the error that names the
  retry bound. At retry 0 (supplied) and expire 3600 the code raises the error for missing
  parameters instead.
\<close>

theorem emergency_retry_zero_counterexample:
  "send_message (world (Inr 3) (Inl (RequestException ''unreachable''))) ''T''
     ((send_args ''u'' ''fire'')\<lparr>priority := EMERGENCY, retry := Some 0, expire := Some 3600\<rparr>)
     = (Inl (ValueError ''Emergency priority requires retry and expire parameters''), [])
   \<and> fst (send_message (world (Inr 3) (Inl (RequestException ''unreachable''))) ''T''
     ((send_args ''u'' ''fire'')\<lparr>priority := EMERGENCY, retry := Some 0, expire := Some 3600\<rparr>))
     \<noteq> Inl (ValueError ''retry must be at least 30 seconds'')"
  by (simp add: send_message_def emergency_params_def send_args_def)

text \<open>
  C2. For every priority other than EMERGENCY, \<open>send_message\<close> raises no
  \<^verbatim>\<open>ValueError\<close>, whatever retry and expire are (in particular when both are omitted):
  the emergency block leaves the payload as it is, and every request sent carries the
  payload without retry, expire or callback fields.
\<close>

theorem non_emergency_never_validation_error:
  "priority a \<noteq> EMERGENCY \<Longrightarrow>
     (\<forall>m. fst (send_message w tok a) \<noteq> Inl (ValueError m))
     \<and> emergency_params a (build_payload tok a) = Inr (build_payload tok a)
     \<and> (\<forall>r \<in> set (snd (send_message w tok a)). req_data r = build_payload tok a)"
proof -
  assume ne: "priority a \<noteq> EMERGENCY"
  then have ep: "emergency_params a (build_payload tok a) = Inr (build_payload tok a)"
    by (simp add: emergency_params_def)
  have "fst (send_message w tok a) \<noteq> Inl (ValueError m)" for m
    using send_message_ValueError [of w tok a m] ep by auto
  moreover have "\<forall>r \<in> set (snd (send_message w tok a)). req_data r = build_payload tok a"
    using ep by (auto simp: send_message_def Let_def split: sum.splits)
  ultimately show ?thesis using ep by blast
qed

theorem non_emergency_never_validation_error_witness:
  "priority ((send_args ''u'' ''hello'')\<lparr>priority := HIGH\<rparr>) \<noteq> EMERGENCY
   \<and> retry ((send_args ''u'' ''hello'')\<lparr>priority := HIGH\<rparr>) = None
   \<and> expire ((send_args ''u'' ''hello'')\<lparr>priority := HIGH\<rparr>) = None
   \<and> fst (send_message (world (Inr 3) (Inl (RequestException ''unreachable''))) ''T''
        ((send_args ''u'' ''hello'')\<lparr>priority := HIGH\<rparr>))
      \<noteq> Inl (ValueError ''Emergency priority requires retry and expire parameters'')
   \<and> fst (send_message (world (Inr 3) (Inl (RequestException ''unreachable''))) ''T''
        ((send_args ''u'' ''hello'')\<lparr>priority := HIGH\<rparr>))
      = Inl (PushoverError (Request_failed ''unreachable''))"
proof -
  have run: "send_message (world (Inr 3) (Inl (RequestException ''unreachable''))) ''T''
        ((send_args ''u'' ''hello'')\<lparr>priority := HIGH\<rparr>)
      = (Inl (PushoverError (Request_failed ''unreachable'')),
         [\<lparr>req_url = BASE_URL @ ''/messages.json'',
           req_data = build_payload ''T'' ((send_args ''u'' ''hello'')\<lparr>priority := HIGH\<rparr>),
           req_files = None\<rparr>])"
    by (simp add: send_message_def emergency_params_def send_args_def open_attachment_def)
  have ne: "priority ((send_args ''u'' ''hello'')\<lparr>priority := HIGH\<rparr>) \<noteq> EMERGENCY"
    by (simp add: send_args_def)
  show ?thesis
    using ne run non_emergency_never_validation_error [OF ne,
        of "world (Inr 3) (Inl (RequestException ''unreachable''))" "''T''"]
    by (simp add: send_args_def)
qed

section \<open>The payload of send\_message\<close>

lemma map_of_add_str:
  "map_of (add_str k x d) k' =
     (case x of None \<Rightarrow> map_of d k'
      | Some s \<Rightarrow> if k' = k \<and> s \<noteq> [] then Some (PStr s) else map_of d k')"
  by (cases x) (simp_all add: add_str_def update_conv')

lemma map_of_add_int:
  "map_of (add_int k x d) k' =
     (case x of None \<Rightarrow> map_of d k'
      | Some n \<Rightarrow> if k' = k \<and> n \<noteq> 0 then Some (PInt n) else map_of d k')"
  by (cases x) (simp_all add: add_int_def update_conv')

lemma map_of_add_flag:
  "map_of (add_flag k b d) k' = (if k' = k \<and> b then Some (PInt 1) else map_of d k')"
  by (simp add: add_flag_def update_conv')

lemma build_payload_lookup:
  "map_of (build_payload tok a) ''token'' = Some (PStr tok)"
  "map_of (build_payload tok a) ''user'' = Some (PStr (user_key a))"
  "map_of (build_payload tok a) ''message'' = Some (PStr (message a))"
  "map_of (build_payload tok a) ''priority'' = Some (PInt (priority_value (priority a)))"
  "map_of (build_payload tok a) ''title'' =
     (case title a of None \<Rightarrow> None | Some s \<Rightarrow> if s = [] then None else Some (PStr s))"
  "map_of (build_payload tok a) ''device'' =
     (case device a of None \<Rightarrow> None | Some s \<Rightarrow> if s = [] then None else Some (PStr s))"
  "map_of (build_payload tok a) ''sound'' =
     (case sound a of None \<Rightarrow> None | Some s \<Rightarrow> if s = [] then None else Some (PStr s))"
  "map_of (build_payload tok a) ''url'' =
     (case url a of None \<Rightarrow> None | Some s \<Rightarrow> if s = [] then None else Some (PStr s))"
  "map_of (build_payload tok a) ''url_title'' =
     (case url_title a of None \<Rightarrow> None | Some s \<Rightarrow> if s = [] then None else Some (PStr s))"
  "map_of (build_payload tok a) ''timestamp'' =
     (case timestamp a of None \<Rightarrow> None | Some n \<Rightarrow> if n = 0 then None else Some (PInt n))"
  "map_of (build_payload tok a) ''html'' = (if html a then Some (PInt 1) else None)"
  "map_of (build_payload tok a) ''monospace'' = (if monospace a then Some (PInt 1) else None)"
  "map_of (build_payload tok a) ''ttl'' =
     (case ttl a of None \<Rightarrow> None | Some n \<Rightarrow> if n = 0 then None else Some (PInt n))"
  unfolding build_payload_def Let_def
  by (simp_all add: map_of_add_str map_of_add_int map_of_add_flag split: option.splits)

lemma emergency_params_lookup:
  "emergency_params a p = Inr p' \<Longrightarrow> k \<noteq> ''retry'' \<Longrightarrow> k \<noteq> ''expire'' \<Longrightarrow>
   k \<noteq> ''callback'' \<Longrightarrow> map_of p' k = map_of p k"
  by (auto simp: emergency_params_def map_of_add_str update_conv'
        split: if_splits option.splits)

lemma sent_request_payload:
  "r \<in> set (snd (send_message w tok a)) \<Longrightarrow>
   emergency_params a (build_payload tok a) = Inr (req_data r)"
  by (auto simp: send_message_def Let_def split: sum.splits)

lemma send_message_sends:
  "emergency_params a (build_payload tok a) = Inr p \<Longrightarrow>
   open_attachment w (attachment a) = Inr files \<Longrightarrow>
   snd (send_message w tok a) =
     [\<lparr>req_url = BASE_URL @ ''/messages.json'', req_data = p, req_files = files\<rparr>]"
  by (simp add: send_message_def Let_def split: sum.splits)

text \<open>
  C5. \<open>send_message\<close> sends its request whenever the emergency validation passes and the
  attachment, if any, can be opened; in particular a call with a priority other than
  EMERGENCY and no attachment sends exactly one request, whose form fields are the payload
  of lines 120--136. In every request that \<open>send_message\<close> sends, each of the optional
  fields title, device, sound, url, url\_title, timestamp, html, monospace and ttl is present
  exactly when the caller's value is truthy: a string field when it is supplied and not
  empty (with that string), an integer field when it is supplied and not zero (with that
  integer), a flag when it is true (with the value 1). The fields token, user, message and
  priority are always present, with the client's token, the two positional arguments and
  the number of the priority.
\<close>

theorem send_message_field_inclusion:
  "(\<forall>p files. emergency_params a (build_payload tok a) = Inr p
        \<and> open_attachment w (attachment a) = Inr files \<longrightarrow>
      snd (send_message w tok a) =
        [\<lparr>req_url = BASE_URL @ ''/messages.json'', req_data = p, req_files = files\<rparr>])
   \<and> (priority a \<noteq> EMERGENCY \<and> attachment a = None \<longrightarrow>
      snd (send_message w tok a) =
        [\<lparr>req_url = BASE_URL @ ''/messages.json'', req_data = build_payload tok a,
          req_files = None\<rparr>])
   \<and> (\<forall>r \<in> set (snd (send_message w tok a)).
      map_of (req_data r) ''token'' = Some (PStr tok)
    \<and> map_of (req_data r) ''user'' = Some (PStr (user_key a))
    \<and> map_of (req_data r) ''message'' = Some (PStr (message a))
    \<and> map_of (req_data r) ''priority'' = Some (PInt (priority_value (priority a)))
    \<and> map_of (req_data r) ''title'' =
        (case title a of None \<Rightarrow> None | Some s \<Rightarrow> if s = [] then None else Some (PStr s))
    \<and> map_of (req_data r) ''device'' =
        (case device a of None \<Rightarrow> None | Some s \<Rightarrow> if s = [] then None else Some (PStr s))
    \<and> map_of (req_data r) ''sound'' =
        (case sound a of None \<Rightarrow> None | Some s \<Rightarrow> if s = [] then None else Some (PStr s))
    \<and> map_of (req_data r) ''url'' =
        (case url a of None \<Rightarrow> None | Some s \<Rightarrow> if s = [] then None else Some (PStr s))
    \<and> map_of (req_data r) ''url_title'' =
        (case url_title a of None \<Rightarrow> None | Some s \<Rightarrow> if s = [] then None else Some (PStr s))
    \<and> map_of (req_data r) ''timestamp'' =
        (case timestamp a of None \<Rightarrow> None | Some n \<Rightarrow> if n = 0 then None else Some (PInt n))
    \<and> map_of (req_data r) ''html'' = (if html a then Some (PInt 1) else None)
    \<and> map_of (req_data r) ''monospace'' = (if monospace a then Some (PInt 1) else None)
    \<and> map_of (req_data r) ''ttl'' =
        (case ttl a of None \<Rightarrow> None | Some n \<Rightarrow> if n = 0 then None else Some (PInt n)))"
proof (intro conjI allI impI ballI)
  fix p files
  assume "emergency_params a (build_payload tok a) = Inr p
      \<and> open_attachment w (attachment a) = Inr files"
  then show "snd (send_message w tok a) =
      [\<lparr>req_url = BASE_URL @ ''/messages.json'', req_data = p, req_files = files\<rparr>]"
    by (simp add: send_message_sends)
next
  assume plain: "priority a \<noteq> EMERGENCY \<and> attachment a = None"
  then have "emergency_params a (build_payload tok a) = Inr (build_payload tok a)"
    by (simp add: emergency_params_def)
  moreover from plain have "open_attachment w (attachment a) = Inr None"
    by (simp add: open_attachment_def)
  ultimately show "snd (send_message w tok a) =
      [\<lparr>req_url = BASE_URL @ ''/messages.json'', req_data = build_payload tok a,
        req_files = None\<rparr>]"
    by (rule send_message_sends)
next
  fix r assume sent: "r \<in> set (snd (send_message w tok a))"
  have ep: "emergency_params a (build_payload tok a) = Inr (req_data r)"
    using sent by (rule sent_request_payload)
  have same: "map_of (req_data r) k = map_of (build_payload tok a) k"
    if "k \<noteq> ''retry''" "k \<noteq> ''expire''" "k \<noteq> ''callback''" for k
    using emergency_params_lookup [OF ep that] .
  show "map_of (req_data r) ''token'' = Some (PStr tok)"
    "map_of (req_data r) ''user'' = Some (PStr (user_key a))"
    "map_of (req_data r) ''message'' = Some (PStr (message a))"
    "map_of (req_data r) ''priority'' = Some (PInt (priority_value (priority a)))"
    "map_of (req_data r) ''title'' =
        (case title a of None \<Rightarrow> None | Some s \<Rightarrow> if s = [] then None else Some (PStr s))"
    "map_of (req_data r) ''device'' =
        (case device a of None \<Rightarrow> None | Some s \<Rightarrow> if s = [] then None else Some (PStr s))"
    "map_of (req_data r) ''sound'' =
        (case sound a of None \<Rightarrow> None | Some s \<Rightarrow> if s = [] then None else Some (PStr s))"
    "map_of (req_data r) ''url'' =
        (case url a of None \<Rightarrow> None | Some s \<Rightarrow> if s = [] then None else Some (PStr s))"
    "map_of (req_data r) ''url_title'' =
        (case url_title a of None \<Rightarrow> None | Some s \<Rightarrow> if s = [] then None else Some (PStr s))"
    "map_of (req_data r) ''timestamp'' =
        (case timestamp a of None \<Rightarrow> None | Some n \<Rightarrow> if n = 0 then None else Some (PInt n))"
    "map_of (req_data r) ''html'' = (if html a then Some (PInt 1) else None)"
    "map_of (req_data r) ''monospace'' = (if monospace a then Some (PInt 1) else None)"
    "map_of (req_data r) ''ttl'' =
        (case ttl a of None \<Rightarrow> None | Some n \<Rightarrow> if n = 0 then None else Some (PInt n))"
    by (simp_all add: same build_payload_lookup)
qed

theorem send_message_field_inclusion_witness:
  "snd (send_message (world (Inr 3) (Inl (RequestException ''unreachable''))) ''T''
          ((send_args ''u'' ''hello'')\<lparr>title := Some ''Hi'', priority := EMERGENCY,
             sound := Some '''', timestamp := Some 0, html := False, monospace := True,
             retry := Some 60, expire := Some 600\<rparr>))
     = [\<lparr>req_url = ''https://api.pushover.net/1/messages.json'',
         req_data = [(''token'', PStr ''T''), (''user'', PStr ''u''),
                     (''message'', PStr ''hello''), (''priority'', PInt 2),
                     (''title'', PStr ''Hi''), (''monospace'', PInt 1),
                     (''retry'', PInt 60), (''expire'', PInt 600)],
         req_files = None\<rparr>]
   \<and> snd (send_message (world (Inr 3) (Inl (RequestException ''unreachable''))) ''T''
          ((send_args ''u'' ''hello'')\<lparr>title := Some ''Hi''\<rparr>))
     = [\<lparr>req_url = ''https://api.pushover.net/1/messages.json'',
         req_data = [(''token'', PStr ''T''), (''user'', PStr ''u''),
                     (''message'', PStr ''hello''), (''priority'', PInt 0),
                     (''title'', PStr ''Hi'')],
         req_files = None\<rparr>]"
proof -
  let ?w = "world (Inr 3) (Inl (RequestException ''unreachable''))"
  let ?a = "(send_args ''u'' ''hello'')\<lparr>title := Some ''Hi'', priority := EMERGENCY,
             sound := Some '''', timestamp := Some 0, html := False, monospace := True,
             retry := Some 60, expire := Some 600\<rparr>"
  let ?p = "[(''token'', PStr ''T''), (''user'', PStr ''u''),
             (''message'', PStr ''hello''), (''priority'', PInt 2),
             (''title'', PStr ''Hi''), (''monospace'', PInt 1),
             (''retry'', PInt 60), (''expire'', PInt 600)]"
  let ?b = "(send_args ''u'' ''hello'')\<lparr>title := Some ''Hi''\<rparr>"
  have ep: "emergency_params ?a (build_payload ''T'' ?a) = Inr ?p"
    by (simp add: emergency_params_def build_payload_def send_args_def
        add_str_def add_int_def add_flag_def)
  have oa: "open_attachment ?w (attachment ?a) = Inr None"
    by (simp add: open_attachment_def send_args_def)
  have first: "snd (send_message ?w ''T'' ?a) =
      [\<lparr>req_url = BASE_URL @ ''/messages.json'', req_data = ?p, req_files = None\<rparr>]"
    using send_message_field_inclusion [where a = ?a and tok = "''T''" and w = ?w] ep oa
    by blast
  have plain: "priority ?b \<noteq> EMERGENCY \<and> attachment ?b = None"
    by (simp add: send_args_def)
  have second: "snd (send_message ?w ''T'' ?b) =
      [\<lparr>req_url = BASE_URL @ ''/messages.json'', req_data = build_payload ''T'' ?b,
        req_files = None\<rparr>]"
    using send_message_field_inclusion [where a = ?b and tok = "''T''" and w = ?w] plain
    by blast
  have bp: "build_payload ''T'' ?b =
      [(''token'', PStr ''T''), (''user'', PStr ''u''), (''message'', PStr ''hello''),
       (''priority'', PInt 0), (''title'', PStr ''Hi'')]"
    by (simp add: build_payload_def send_args_def add_str_def add_int_def add_flag_def)
  show ?thesis
    unfolding first second bp by (simp add: BASE_URL_def)
qed

section \<open>validate\_user\<close>

text \<open>
  C6 (as the code has it). \<open>validate_user\<close> returns a boolean in every case and sends one
  request. It returns \<^verbatim>\<open>False\<close> when \<^verbatim>\<open>requests.post\<close> raises and when decoding the
  body raises; when the body decodes, it returns \<^verbatim>\<open>True\<close> exactly when the body is an
  object whose \<^verbatim>\<open>status\<close> field equals 1 under Python's \<^verbatim>\<open>==\<close>. The HTTP status code
  has no part in the result.
\<close>

theorem validate_user_result:
  "\<exists>req. snd (validate_user w tok u dev) = [req]
     \<and> req_url req = BASE_URL @ ''/users/validate.json''
     \<and> (\<forall>ex. post w req = Inl ex \<longrightarrow> fst (validate_user w tok u dev) = False)
     \<and> (\<forall>resp ex. post w req = Inr resp \<and> json_result resp = Inl ex \<longrightarrow>
           fst (validate_user w tok u dev) = False)
     \<and> (\<forall>resp data. post w req = Inr resp \<and> json_result resp = Inr data \<longrightarrow>
           fst (validate_user w tok u dev) =
             (\<exists>d v. data = JObj d \<and> map_of d ''status'' = Some v \<and> py_eq_1 v))"
proof -
  let ?req = "\<lparr>req_url = BASE_URL @ ''/users/validate.json'',
      req_data = add_str ''device'' dev [(''token'', PStr tok), (''user'', PStr u)],
      req_files = None\<rparr>"
  have c1: "snd (validate_user w tok u dev) = [?req]"
    by (simp add: validate_user_def Let_def split: sum.splits)
  have c2: "req_url ?req = BASE_URL @ ''/users/validate.json''"
    by simp
  have c3: "\<forall>ex. post w ?req = Inl ex \<longrightarrow> fst (validate_user w tok u dev) = False"
    by (simp add: validate_user_def Let_def)
  have c4: "\<forall>resp ex. post w ?req = Inr resp \<and> json_result resp = Inl ex \<longrightarrow>
      fst (validate_user w tok u dev) = False"
    by (simp add: validate_user_def Let_def)
  have c5: "\<forall>resp data. post w ?req = Inr resp \<and> json_result resp = Inr data \<longrightarrow>
      fst (validate_user w tok u dev) =
        (\<exists>d v. data = JObj d \<and> map_of d ''status'' = Some v \<and> py_eq_1 v)"
  proof (intro allI impI)
    fix resp data
    assume "post w ?req = Inr resp \<and> json_result resp = Inr data"
    then show "fst (validate_user w tok u dev) =
        (\<exists>d v. data = JObj d \<and> map_of d ''status'' = Some v \<and> py_eq_1 v)"
      by (cases data) (auto simp: validate_user_def Let_def dict_get_def split: option.splits)
  qed
  show ?thesis
    by (intro exI [of _ ?req] conjI) (rule c1 c2 c3 c4 c5)+
qed

theorem validate_user_result_witness:
  "fst (validate_user
     (world (Inr 3) (Inr \<lparr>status_code = 200,
        json_result = Inr (JObj [(''status'', JInt 1), (''devices'', JArr [JStr ''phone''])])\<rparr>))
     ''T'' ''u'' None) = True
   \<and> fst (validate_user
     (world (Inr 3) (Inr \<lparr>status_code = 400, json_result = Inr (JObj [(''status'', JInt 0)])\<rparr>))
     ''T'' ''u'' None) = False
   \<and> fst (validate_user
     (world (Inr 3) (Inr \<lparr>status_code = 200,
        json_result = Inl (RequestException ''Expecting value'')\<rparr>))
     ''T'' ''u'' None) = False
   \<and> fst (validate_user (world (Inr 3) (Inl (RequestException ''unreachable'')))
     ''T'' ''u'' None) = False"
  using
    validate_user_result [of "world (Inr 3) (Inr \<lparr>status_code = 200,
        json_result = Inr (JObj [(''status'', JInt 1), (''devices'', JArr [JStr ''phone''])])\<rparr>)"
      "''T''" "''u''" None]
    validate_user_result [of "world (Inr 3) (Inr \<lparr>status_code = 400,
        json_result = Inr (JObj [(''status'', JInt 0)])\<rparr>)" "''T''" "''u''" None]
    validate_user_result [of "world (Inr 3) (Inr \<lparr>status_code = 200,
        json_result = Inl (RequestException ''Expecting value'')\<rparr>)" "''T''" "''u''" None]
    validate_user_result [of "world (Inr 3) (Inl (RequestException ''unreachable''))"
      "''T''" "''u''" None]
  by auto

text \<open>
  The claim C6 as written has \<open>validate_user\<close> return \<^verbatim>\<open>False\<close> on every non-200
  response. A response with HTTP status 500 whose body is \<^verbatim>\<open>{"status": 1}\<close> gives
  \<^verbatim>\<open>True\<close>.
\<close>

theorem validate_user_non_200_counterexample:
  "fst (validate_user
     (world (Inr 3) (Inr \<lparr>status_code = 500, json_result = Inr (JObj [(''status'', JInt 1)])\<rparr>))
     ''T'' ''u'' None) = True"
  by (simp add: validate_user_def add_str_def dict_get_def)

section \<open>cancel\_emergency\<close>

text \<open>
  C7. \<open>cancel_emergency\<close> returns a boolean in every case and sends one request, to the
  cancel URL of the receipt. It returns \<^verbatim>\<open>True\<close> exactly when \<^verbatim>\<open>requests.post\<close>
  returns a response whose status code is 200; any other status code and any exception of
  the transport give \<^verbatim>\<open>False\<close>.
\<close>

theorem cancel_emergency_result:
  "\<exists>req. snd (cancel_emergency w tok rcpt) = [req]
     \<and> req_url req = BASE_URL @ ''/receipts/'' @ rcpt @ ''/cancel.json''
     \<and> fst (cancel_emergency w tok rcpt) =
         (\<exists>resp. post w req = Inr resp \<and> status_code resp = 200)
     \<and> (\<forall>ex. post w req = Inl ex \<longrightarrow> fst (cancel_emergency w tok rcpt) = False)
     \<and> (\<forall>resp. post w req = Inr resp \<and> status_code resp \<noteq> 200 \<longrightarrow>
           fst (cancel_emergency w tok rcpt) = False)"
proof -
  let ?req = "\<lparr>req_url = BASE_URL @ ''/receipts/'' @ rcpt @ ''/cancel.json'',
      req_data = [(''token'', PStr tok)], req_files = None\<rparr>"
  have c1: "snd (cancel_emergency w tok rcpt) = [?req]"
    by (simp add: cancel_emergency_def Let_def split: sum.splits)
  have c2: "req_url ?req = BASE_URL @ ''/receipts/'' @ rcpt @ ''/cancel.json''"
    by simp
  have c3: "fst (cancel_emergency w tok rcpt) =
      (\<exists>resp. post w ?req = Inr resp \<and> status_code resp = 200)"
    by (simp add: cancel_emergency_def Let_def split: sum.splits)
  have c4: "\<forall>ex. post w ?req = Inl ex \<longrightarrow> fst (cancel_emergency w tok rcpt) = False"
    by (simp add: cancel_emergency_def Let_def)
  have c5: "\<forall>resp. post w ?req = Inr resp \<and> status_code resp \<noteq> 200 \<longrightarrow>
      fst (cancel_emergency w tok rcpt) = False"
    by (simp add: cancel_emergency_def Let_def)
  show ?thesis
    by (intro exI [of _ ?req] conjI) (rule c1 c2 c3 c4 c5)+
qed

theorem cancel_emergency_result_witness:
  "fst (cancel_emergency
     (world (Inr 3) (Inr \<lparr>status_code = 200, json_result = Inr (JObj [(''status'', JInt 1)])\<rparr>))
     ''T'' ''r1'') = True
   \<and> fst (cancel_emergency
     (world (Inr 3) (Inr \<lparr>status_code = 500, json_result = Inr (JObj [(''status'', JInt 1)])\<rparr>))
     ''T'' ''r1'') = False
   \<and> fst (cancel_emergency (world (Inr 3) (Inl (OtherException ''connection reset'')))
     ''T'' ''r1'') = False"
  using
    cancel_emergency_result [of "world (Inr 3) (Inr \<lparr>status_code = 200,
        json_result = Inr (JObj [(''status'', JInt 1)])\<rparr>)" "''T''" "''r1''"]
    cancel_emergency_result [of "world (Inr 3) (Inr \<lparr>status_code = 500,
        json_result = Inr (JObj [(''status'', JInt 1)])\<rparr>)" "''T''" "''r1''"]
    cancel_emergency_result [of "world (Inr 3) (Inl (OtherException ''connection reset''))"
      "''T''" "''r1''"]
  by auto

section \<open>The attachment\<close>








section \<open>A 200 response with a missing field\<close>

lemma send_message_decodes:
  "emergency_params a (build_payload tok a) = Inr p \<Longrightarrow>
   open_attachment w (attachment a) = Inr files \<Longrightarrow>
   post w \<lparr>req_url = BASE_URL @ ''/messages.json'', req_data = p, req_files = files\<rparr> = Inr resp \<Longrightarrow>
   json_result resp = Inr data \<Longrightarrow>
   fst (send_message w tok a) = decode_send (status_code resp) data"
  by (simp add: send_message_def Let_def)

text \<open>
  C9 (as the code has it). When \<open>send_message\<close> gets as far as the request (the emergency
  validation passes and the attachment, if any, opens) and the response has status 200 and
  a body that decodes to an object: a body without \<^verbatim>\<open>status\<close> makes the call raise
  \<^verbatim>\<open>KeyError('status')\<close>, a body with \<^verbatim>\<open>status\<close> but without \<^verbatim>\<open>request\<close> makes it raise
  \<^verbatim>\<open>KeyError('request')\<close>, and neither is a \<^verbatim>\<open>PushoverError\<close>; a body with both
  fields gives the response made of them and of the receipt, if any.
\<close>

theorem missing_field_raises_KeyError:
  "emergency_params a (build_payload tok a) = Inr p
   \<and> open_attachment w (attachment a) = Inr files
   \<and> post w \<lparr>req_url = BASE_URL @ ''/messages.json'', req_data = p, req_files = files\<rparr> = Inr resp
   \<and> status_code resp = 200 \<and> json_result resp = Inr (JObj d) \<longrightarrow>
     (map_of d ''status'' = None \<longrightarrow> fst (send_message w tok a) = Inl (KeyError ''status''))
     \<and> (map_of d ''status'' \<noteq> None \<and> map_of d ''request'' = None \<longrightarrow>
          fst (send_message w tok a) = Inl (KeyError ''request''))
     \<and> (map_of d ''status'' = None \<or> map_of d ''request'' = None \<longrightarrow>
          (\<forall>m. fst (send_message w tok a) \<noteq> Inl (PushoverError m)))
     \<and> (\<forall>st rq. map_of d ''status'' = Some st \<and> map_of d ''request'' = Some rq \<longrightarrow>
          fst (send_message w tok a) =
            Inr \<lparr>status = st, request_id = rq, receipt = dict_get d ''receipt'' JNull,
                 errors = JNull\<rparr>)"
proof (intro impI)
  assume "emergency_params a (build_payload tok a) = Inr p
   \<and> open_attachment w (attachment a) = Inr files
   \<and> post w \<lparr>req_url = BASE_URL @ ''/messages.json'', req_data = p, req_files = files\<rparr> = Inr resp
   \<and> status_code resp = 200 \<and> json_result resp = Inr (JObj d)"
  then have run: "fst (send_message w tok a) = decode_send 200 (JObj d)"
    using send_message_decodes [of a tok p w files resp "JObj d"] by simp
  show "(map_of d ''status'' = None \<longrightarrow> fst (send_message w tok a) = Inl (KeyError ''status''))
     \<and> (map_of d ''status'' \<noteq> None \<and> map_of d ''request'' = None \<longrightarrow>
          fst (send_message w tok a) = Inl (KeyError ''request''))
     \<and> (map_of d ''status'' = None \<or> map_of d ''request'' = None \<longrightarrow>
          (\<forall>m. fst (send_message w tok a) \<noteq> Inl (PushoverError m)))
     \<and> (\<forall>st rq. map_of d ''status'' = Some st \<and> map_of d ''request'' = Some rq \<longrightarrow>
          fst (send_message w tok a) =
            Inr \<lparr>status = st, request_id = rq, receipt = dict_get d ''receipt'' JNull,
                 errors = JNull\<rparr>)"
    unfolding run by (auto simp: decode_send_def split: option.splits)
qed

theorem missing_field_raises_KeyError_witness:
  "fst (send_message (world (Inr 3) (Inr \<lparr>status_code = 200,
       json_result = Inr (JObj [(''status'', JInt 1)])\<rparr>)) ''T'' (send_args ''u'' ''hello''))
   = Inl (KeyError ''request'')
   \<and> fst (send_message (world (Inr 3) (Inr \<lparr>status_code = 200,
       json_result = Inr (JObj [(''status'', JInt 1), (''request'', JStr ''r1'')])\<rparr>)) ''T''
       (send_args ''u'' ''hello''))
   = Inr \<lparr>status = JInt 1, request_id = JStr ''r1'', receipt = JNull, errors = JNull\<rparr>"
proof -
  let ?a = "send_args ''u'' ''hello''"
  have ep: "emergency_params ?a (build_payload ''T'' ?a) = Inr (build_payload ''T'' ?a)"
    by (simp add: emergency_params_def send_args_def)
  have oa: "open_attachment w (attachment ?a) = Inr None" for w
    by (simp add: open_attachment_def send_args_def)
  show ?thesis
    using
      missing_field_raises_KeyError [where a = ?a and tok = "''T''"
        and p = "build_payload ''T'' ?a" and files = None
        and w = "world (Inr 3) (Inr \<lparr>status_code = 200,
           json_result = Inr (JObj [(''status'', JInt 1)])\<rparr>)"
        and resp = "\<lparr>status_code = 200, json_result = Inr (JObj [(''status'', JInt 1)])\<rparr>"
        and d = "[(''status'', JInt 1)]"]
      missing_field_raises_KeyError [where a = ?a and tok = "''T''"
        and p = "build_payload ''T'' ?a" and files = None
        and w = "world (Inr 3) (Inr \<lparr>status_code = 200,
           json_result = Inr (JObj [(''status'', JInt 1), (''request'', JStr ''r1'')])\<rparr>)"
        and resp = "\<lparr>status_code = 200,
           json_result = Inr (JObj [(''status'', JInt 1), (''request'', JStr ''r1'')])\<rparr>"
        and d = "[(''status'', JInt 1), (''request'', JStr ''r1'')]"]
      ep oa
    by (simp add: dict_get_def)
qed

text \<open>
  The claim C9 as written makes a missing field a \<^verbatim>\<open>PushoverError\<close>. A 200 response
  with the body \<^verbatim>\<open>{"request": "r1"}\<close> makes \<open>send_message\<close> raise \<^verbatim>\<open>KeyError('status')\<close>,
  which the \<^verbatim>\<open>except\<close> clause for request exceptions does not catch.
\<close>

theorem missing_field_counterexample:
  "fst (send_message (world (Inr 3) (Inr \<lparr>status_code = 200,
       json_result = Inr (JObj [(''request'', JStr ''r1'')])\<rparr>)) ''T'' (send_args ''u'' ''hello''))
   = Inl (KeyError ''status'')"
  by (simp add: send_message_def emergency_params_def open_attachment_def send_args_def
      decode_send_def)

end
